theory Spec2Isabelle
  imports Main "HOL-Library.Sublist"
begin

section \<open>Attaching to a running Chrome: \<open>internal/browser/manager.go\<close>\<close>

text \<open>Go errors are modelled by the text that \<open>%v\<close> prints for them.\<close>

type_synonym err = string

text \<open>
  A chromedp context is modelled by the debug URL its remote allocator was created for
  and by whether it has been cancelled. The contexts that \<open>chromedp.NewContext\<close> and
  \<open>context.WithTimeout\<close> return are derived from their parent: cancelling the parent
  cancels them, and a context derived from a cancelled one is cancelled. \<open>chromedp.Run\<close> on
  a cancelled context returns the error \<open>context canceled\<close>.
\<close>

record chrome_ctx =
  ctx_endpoint :: string
  ctx_cancelled :: bool

definition NewRemoteAllocator :: "string \<Rightarrow> chrome_ctx" where
  "NewRemoteAllocator url = \<lparr>ctx_endpoint = url, ctx_cancelled = False\<rparr>"

definition NewContext :: "chrome_ctx \<Rightarrow> chrome_ctx" where
  "NewContext parent =
     \<lparr>ctx_endpoint = ctx_endpoint parent, ctx_cancelled = ctx_cancelled parent\<rparr>"

definition WithTimeout :: "chrome_ctx \<Rightarrow> chrome_ctx" where
  "WithTimeout parent =
     \<lparr>ctx_endpoint = ctx_endpoint parent, ctx_cancelled = ctx_cancelled parent\<rparr>"

text \<open>A derived context once the cancel function of its parent has been called.\<close>

definition parent_cancelled :: "chrome_ctx \<Rightarrow> chrome_ctx" where
  "parent_cancelled child = child\<lparr>ctx_cancelled := True\<rparr>"

text \<open>
  Everything outside the process that \<open>Manager.Init\<close> talks to:
  \<^item> \<open>http_get u\<close>: \<open>client.Get(u)\<close> with the 2 second client timeout, a transport error or
    the status code of the response;
  \<^item> \<open>verify_candidate u\<close>: what
    \<open>chromedp.Run(testCtx, chromedp.Evaluate(`window.location.href`, nil))\<close> returns on a
    live context for debug URL \<open>u\<close>, under the 5 second timeout of \<open>testCtx\<close> (a timeout is
    one of the errors);
  \<^item> \<open>test_connection u\<close>: what the same evaluation returns when \<open>testConnection\<close> runs it
    on a live context for \<open>u\<close>;
  \<^item> \<open>mkdir_all\<close>: \<open>os.MkdirAll(dir, 0755)\<close>;
  \<^item> \<open>client_init\<close>: \<open>browserhttp\<close>'s \<open>client.Init()\<close>;
  \<^item> \<open>storage_init\<close>: \<open>storage.Manager.Init()\<close>, used by the servers.
\<close>

record world =
  http_get :: "string \<Rightarrow> err + nat"
  verify_candidate :: "string \<Rightarrow> err option"
  test_connection :: "string \<Rightarrow> err option"
  mkdir_all :: "string \<Rightarrow> err option"
  client_init :: "err option"
  storage_init :: "err option"

definition isDebugPortAvailable :: "world \<Rightarrow> string \<Rightarrow> bool" where
  "isDebugPortAvailable w debugURL =
     (case http_get w (debugURL @ ''/json'') of
        Inl e \<Rightarrow> False
      | Inr StatusCode \<Rightarrow> StatusCode = 200)"

text \<open>
  What \<open>connectToExistingChrome\<close> does to the outside, in the order it does it: the probe
  of a debug URL, the verification call on the context made for it, \<open>cancel()\<close> of that
  context, \<open>allocCancel()\<close> of its allocator, and the deferred \<open>testCancel()\<close> of the
  timeout context of a verification.
\<close>

datatype event = Probe string | Verify string | Cancel string
  | AllocCancel string | TestCancel string

definition debugURL_of :: "string \<Rightarrow> string" where
  "debugURL_of port = ''http://localhost:'' @ port"

text \<open>The verification call of \<open>connectToExistingChrome\<close> on \<open>testCtx\<close>.\<close>

definition verify :: "world \<Rightarrow> chrome_ctx \<Rightarrow> err option" where
  "verify w testCtx =
     (if ctx_cancelled testCtx then Some ''context canceled''
      else verify_candidate w (ctx_endpoint testCtx))"

text \<open>
  The body of \<open>for _, port := range ports\<close>, by recursion on the ports still to try. On
  success the code calls \<open>allocCancel()\<close> and returns \<open>ctx\<close>, which is derived from the
  allocator context that \<open>allocCancel\<close> cancels.
\<close>

fun connect_ports :: "world \<Rightarrow> string list \<Rightarrow> chrome_ctx option \<times> event list" where
  "connect_ports w [] = (None, [])"
| "connect_ports w (port # ports) =
     (let debugURL = debugURL_of port in
      if isDebugPortAvailable w debugURL then
        (let allocCtx = NewRemoteAllocator debugURL;
             ctx = NewContext allocCtx;
             testCtx = WithTimeout ctx
         in if verify w testCtx = None
            then (Some (parent_cancelled ctx),
                  [Probe debugURL, Verify debugURL, AllocCancel debugURL])
            else (case connect_ports w ports of
                    (found, evs) \<Rightarrow>
                      (found, Probe debugURL # Verify debugURL # Cancel debugURL
                              # AllocCancel debugURL # evs)))
      else (case connect_ports w ports of (found, evs) \<Rightarrow> (found, Probe debugURL # evs)))"

definition candidate_ports :: "string list" where
  "candidate_ports = [''9222'', ''9223'', ''9224'']"

text \<open>
  The debug URLs on which a verification ran: each has a \<open>defer testCancel()\<close> pending, and
  the deferred calls run last registered first when the function returns.
\<close>

fun verified :: "event list \<Rightarrow> string list" where
  "verified [] = []"
| "verified (Verify u # evs) = u # verified evs"
| "verified (e # evs) = verified evs"

definition connectToExistingChrome :: "world \<Rightarrow> chrome_ctx option \<times> event list" where
  "connectToExistingChrome w =
     (case connect_ports w candidate_ports of
        (found, evs) \<Rightarrow> (found, evs @ map TestCancel (rev (verified evs))))"

text \<open>\<open>testConnection\<close> runs the evaluation on a timeout context derived from \<open>m.ctx\<close>.\<close>

definition testConnection :: "world \<Rightarrow> chrome_ctx \<Rightarrow> err option" where
  "testConnection w m_ctx =
     (let testCtx = WithTimeout m_ctx
      in if ctx_cancelled testCtx then Some ''context canceled''
         else test_connection w (ctx_endpoint testCtx))"

text \<open>
  The manager after a successful \<open>Manager.Init\<close>: the context it kept, and whether
  \<open>initBrowserHTTPWithExistingChrome\<close> succeeded (its failure is only logged).
\<close>

record Manager =
  ctx :: chrome_ctx
  browserhttp_ready :: bool

text \<open>
  The format string of the error of \<open>Manager.Init\<close>; the light-bulb sign of the source is
  written as its four UTF-8 bytes.
\<close>

definition connect_error :: "err \<Rightarrow> string" where
  "connect_error e =
     ''failed to connect to Chrome: '' @ e @
     [CHR 0x0A, CHR 0x0A, CHR 0xF0, CHR 0x9F, CHR 0x92, CHR 0xA1] @
     '' Make sure Chrome is running with debugging enabled:'' @ [CHR 0x0A] @
     ''   google-chrome --remote-debugging-port=9222''"

definition initBrowserHTTPWithExistingChrome :: "world \<Rightarrow> err option" where
  "initBrowserHTTPWithExistingChrome w =
     (case client_init w of
        Some e \<Rightarrow> Some (''browserhttp init failed, using chromedp fallback: '' @ e)
      | None \<Rightarrow> None)"

text \<open>
  The context that \<open>Init\<close> stores in \<open>m.ctx\<close>: the one \<open>connectToExistingChrome\<close> found, or
  a new context on the allocator for \<open>http://localhost:9222\<close>, whose \<open>cancel()\<close> the code
  calls right after deriving the context from it.
\<close>

definition Manager_Init_ctx :: "world \<Rightarrow> chrome_ctx" where
  "Manager_Init_ctx w =
     (case fst (connectToExistingChrome w) of
        Some found \<Rightarrow> found
      | None \<Rightarrow>
          (let allocCtx = NewRemoteAllocator ''http://localhost:9222'';
               m_ctx = NewContext allocCtx
           in parent_cancelled m_ctx))"

definition Manager_Init :: "world \<Rightarrow> err + Manager" where
  "Manager_Init w =
     (let m_ctx = Manager_Init_ctx w in
      case testConnection w m_ctx of
        Some e \<Rightarrow> Inl (connect_error e)
      | None \<Rightarrow>
          (case mkdir_all w ''screenshots'' of
             Some e \<Rightarrow> Inl (''failed to create screenshots directory: '' @ e)
           | None \<Rightarrow>
               Inr \<lparr>ctx = m_ctx,
                    browserhttp_ready = (initBrowserHTTPWithExistingChrome w = None)\<rparr>))"

section \<open>The chromedp executor\<close>

text \<open>
  \<open>network.Cookie\<close>, with the fields this code reads. Field names carry a prefix because
  record fields share one name space.
\<close>

record Cookie =
  c_Name :: string
  c_Value :: string
  c_Domain :: string
  c_Path :: string
  c_Secure :: bool
  c_HTTPOnly :: bool

record SessionData =
  Cookies :: "Cookie list"
  URL :: string
  UserAgent :: string
  Timestamp :: nat

text \<open>
  The chromedp actions the manager builds. \<open>SetCookie\<close> carries name, value, domain, path,
  secure and http-only, the parameters \<open>RestoreSession\<close> sets.
\<close>

datatype action =
    ANavigate string
  | AWaitReady string
  | ATitle
  | AWaitVisible string
  | AScreenshot string
  | AClick string
  | ASendKeys string string
  | AEvaluate string
  | AGetCookies
  | ALocation
  | ASetCookie string string string string bool bool

text \<open>What an action writes to the variable the Go code passed by pointer.\<close>

datatype val = VUnit | VString string | VBytes "nat list" | VStrings "string list"
  | VCookies "Cookie list"

text \<open>
  What one action does on its own: it yields its value, it fails with an error, or it
  hangs, waiting for something that does not come (a click or a wait on an element that
  never appears). Only a deadline on the context ends an action that hangs.
\<close>

datatype outcome = Done val | Failed err | Hang

text \<open>
  The browser is a parameter: \<open>perform b a\<close> is the outcome of one action on browser state
  \<open>b\<close> and the state afterwards. \<open>EncodeToString\<close> is \<open>base64.StdEncoding.EncodeToString\<close>.
  The methods below are those of a manager whose context is live.
\<close>

record 'b chrome =
  perform :: "'b \<Rightarrow> action \<Rightarrow> outcome \<times> 'b"
  EncodeToString :: "nat list \<Rightarrow> string"

text \<open>
  \<open>chromedp.Run(ctx, actions...)\<close>: the actions one after the other, stopping at the first
  error; the values of the actions that ran are kept in order. \<open>deadline\<close> says whether
  \<open>ctx\<close> has one: with a deadline an action that hangs ends with the error
  \<open>context deadline exceeded\<close>, without one the run never returns, which is \<open>None\<close>.
\<close>

fun Run :: "'b chrome \<Rightarrow> bool \<Rightarrow> 'b \<Rightarrow> action list \<Rightarrow> ((err + val list) \<times> 'b) option" where
  "Run c deadline b [] = Some (Inr [], b)"
| "Run c deadline b (a # as) =
     (case perform c b a of
        (Failed e, b') \<Rightarrow> Some (Inl e, b')
      | (Hang, b') \<Rightarrow>
          (if deadline then Some (Inl ''context deadline exceeded'', b') else None)
      | (Done v, b') \<Rightarrow>
          (case Run c deadline b' as of
             None \<Rightarrow> None
           | Some (Inl e, b'') \<Rightarrow> Some (Inl e, b'')
           | Some (Inr vs, b'') \<Rightarrow> Some (Inr (v # vs), b'')))"

section \<open>\<open>Manager\<close>: the chromedp backend\<close>

record NavigateResult =
  nav_URL :: string
  nav_Title :: string
  nav_Screenshot :: string
  nav_Success :: bool
  nav_Message :: string


record ExtractTextResult =
  text_Text :: "string list"
  text_Success :: bool
  text_Message :: string

record FillFormResult =
  form_Success :: bool
  form_Message :: string
  form_Screenshot :: string

text \<open>The string a \<open>*string\<close> or \<open>*[]byte\<close> destination holds after the run.\<close>

fun string_of :: "val \<Rightarrow> string" where
  "string_of (VString s) = s"
| "string_of _ = []"


fun strings_of :: "val \<Rightarrow> string list" where
  "strings_of (VStrings ts) = ts"
| "strings_of _ = []"

fun cookies_of :: "val \<Rightarrow> Cookie list" where
  "cookies_of (VCookies cs) = cs"
| "cookies_of _ = []"





definition extract_script :: "string \<Rightarrow> string" where
  "extract_script selector =
     ''Array.from(document.querySelectorAll('' @ [CHR 0x27] @ selector @ [CHR 0x27]
     @ '')).map(el => el.textContent.trim())''"

definition Manager_ExtractText ::
  "'b chrome \<Rightarrow> 'b \<Rightarrow> string \<Rightarrow> ((ExtractTextResult \<times> err option) \<times> 'b) option" where
  "Manager_ExtractText c b selector =
     (case Run c False b [AEvaluate (extract_script selector)] of
        None \<Rightarrow> None
      | Some (Inl e, b') \<Rightarrow>
          Some ((\<lparr>text_Text = [], text_Success = False,
                  text_Message = ''Text extraction failed: '' @ e\<rparr>, None), b')
      | Some (Inr vs, b') \<Rightarrow>
          Some ((\<lparr>text_Text = strings_of (last vs), text_Success = True,
                  text_Message = []\<rparr>, None), b'))"

text \<open>
  A Go map argument is given as the list of its entries in the order \<open>range\<close> visits them.
\<close>

definition Manager_submitSelectors :: "string list" where
  "Manager_submitSelectors =
     [''input[type='submit']'', ''button[type='submit']'', ''form button'',
      ''.submit-button'', ''[role='button'][type='submit']'']"

text \<open>
  The loop over \<open>submitSelectors\<close> in \<open>Manager.FillForm\<close>: its body appends a click and
  breaks, whatever the selector.
\<close>

fun Manager_submit_actions :: "string list \<Rightarrow> action list" where
  "Manager_submit_actions [] = []"
| "Manager_submit_actions (submitSelector # rest) = [AClick submitSelector]"

definition fill_form_actions :: "(string \<times> string) list \<Rightarrow> bool \<Rightarrow> action list" where
  "fill_form_actions field_list submit =
     map (\<lambda>(selector, v). ASendKeys selector v) field_list
     @ (if submit then Manager_submit_actions Manager_submitSelectors else [])"

definition Manager_FillForm ::
  "'b chrome \<Rightarrow> 'b \<Rightarrow> (string \<times> string) list \<Rightarrow> bool
   \<Rightarrow> ((FillFormResult \<times> err option) \<times> 'b) option" where
  "Manager_FillForm c b field_list submit =
     (case Run c False b (fill_form_actions field_list submit) of
        None \<Rightarrow> None
      | Some (Inl e, b') \<Rightarrow>
          Some ((\<lparr>form_Success = False, form_Message = ''Form filling failed: '' @ e,
                  form_Screenshot = []\<rparr>, None), b')
      | Some (Inr vs, b') \<Rightarrow>
          Some ((\<lparr>form_Success = True,
                  form_Message = ''Form filled successfully''
                                 @ (if submit then '' and submitted'' else []),
                  form_Screenshot = []\<rparr>, None), b'))"

text \<open>
  \<open>GetSessionData\<close> updates the manager's \<open>sessionData\<close> in place and returns it; \<open>now\<close> is
  \<open>time.Now()\<close>. The error of \<open>network.GetCookies\<close> is dropped by the action function.
\<close>

definition Manager_GetSessionData ::
  "'b chrome \<Rightarrow> nat \<Rightarrow> 'b \<Rightarrow> SessionData \<Rightarrow> (SessionData \<times> 'b) option" where
  "Manager_GetSessionData c now b sessionData =
     (case perform c b AGetCookies of
        (Hang, b1) \<Rightarrow> None
      | (r, b1) \<Rightarrow>
          (let cookies = (case r of Done v \<Rightarrow> cookies_of v | _ \<Rightarrow> []);
               sd1 = sessionData\<lparr>Cookies := cookies\<rparr>
           in case Run c False b1 [ALocation] of
                None \<Rightarrow> None
              | Some (Inl e, b2) \<Rightarrow> Some (sd1\<lparr>Timestamp := now\<rparr>, b2)
              | Some (Inr vs, b2) \<Rightarrow>
                  Some (sd1\<lparr>URL := string_of (last vs), Timestamp := now\<rparr>, b2)))"

text \<open>The \<open>map[string]interface{}\<close> that \<open>RestoreSession\<close> returns.\<close>

datatype rvalue = RBool bool | RString string | RInt int

definition set_cookie_action :: "Cookie \<Rightarrow> action" where
  "set_cookie_action cookie =
     ASetCookie (c_Name cookie) (c_Value cookie) (c_Domain cookie) (c_Path cookie)
                (c_Secure cookie) (c_HTTPOnly cookie)"

definition restore_actions :: "SessionData \<Rightarrow> action list" where
  "restore_actions sessionData =
     (if URL sessionData \<noteq> [] then [ANavigate (URL sessionData)] else [])
     @ map set_cookie_action (Cookies sessionData)"

definition Manager_RestoreSession ::
  "'b chrome \<Rightarrow> 'b \<Rightarrow> SessionData \<Rightarrow> (((string \<rightharpoonup> rvalue) \<times> err option) \<times> 'b) option"
  where
  "Manager_RestoreSession c b sessionData =
     (case Run c False b (restore_actions sessionData) of
        None \<Rightarrow> None
      | Some (Inl e, b') \<Rightarrow>
          Some (([''success'' \<mapsto> RBool False,
                  ''message'' \<mapsto> RString (''Session restore failed: '' @ e)], None), b')
      | Some (Inr vs, b') \<Rightarrow>
          Some (([''success'' \<mapsto> RBool True,
                  ''message'' \<mapsto> RString ''Session restored successfully'',
                  ''url'' \<mapsto> RString (URL sessionData),
                  ''cookies_restored'' \<mapsto> RInt (int (length (Cookies sessionData)))],
                 None), b'))"

section \<open>\<open>EnhancedManager\<close>: the browserhttp backend\<close>

text \<open>\<open>http.Cookie\<close>, with the fields that matter here.\<close>

record HttpCookie =
  h_Name :: string
  h_Value :: string
  h_Path :: string
  h_Domain :: string
  h_Secure :: bool
  h_HttpOnly :: bool

text \<open>
  What \<open>client.GetPerformanceMetrics()\<close> returns; the three durations are in milliseconds,
  as \<open>Milliseconds()\<close> reads them.
\<close>

record PerformanceMetrics =
  DOMContentLoaded :: int
  LoadComplete :: int
  FirstPaint :: int
  NetworkRequests :: int
  ResourceSizes :: "(string \<times> int) list"

text \<open>The calls made on the \<open>browserhttp\<close> client; a timeout is given in seconds.\<close>

datatype bh_call =
    BGet string
  | BWaitForElement string nat
  | BClick string
  | BExtractText string
  | BType string string
  | BGetCookies
  | BSetCookies "HttpCookie list"
  | BEvaluate string
  | BGetPerformanceMetrics

text \<open>
  What a call returns beside its error; \<open>BResponse t\<close> is a response whose \<open>Title\<close> header
  is \<open>t\<close>.
\<close>

datatype bh_val = BUnit | BResponse string | BStrings "string list"
  | BCookies "HttpCookie list" | BString string | BMetrics PerformanceMetrics

text \<open>
  The client is a parameter: \<open>bh h call\<close> is the error or the value of one call on
  client state \<open>h\<close>, and the state afterwards. A call is taken to return: the client is
  created with a timeout of 30 seconds, and \<open>WaitForElement\<close> is given its own.
\<close>

type_synonym 'h browserhttp = "'h \<Rightarrow> bh_call \<Rightarrow> (err + bh_val) \<times> 'h"

fun header_Title :: "bh_val \<Rightarrow> string" where
  "header_Title (BResponse t) = t"
| "header_Title _ = []"

fun bstrings_of :: "bh_val \<Rightarrow> string list" where
  "bstrings_of (BStrings ts) = ts"
| "bstrings_of _ = []"

fun bcookies_of :: "bh_val \<Rightarrow> HttpCookie list" where
  "bcookies_of (BCookies cs) = cs"
| "bcookies_of _ = []"

fun bstring_of :: "bh_val \<Rightarrow> string" where
  "bstring_of (BString s) = s"
| "bstring_of _ = []"

text \<open>\<open>%d\<close> and \<open>%v\<close> of an integer.\<close>

function show_nat :: "nat \<Rightarrow> string" where
  "show_nat n =
     (if n < 10 then [''0123456789'' ! n]
      else show_nat (n div 10) @ [''0123456789'' ! (n mod 10)])"
  by pat_completeness auto
termination
  by (relation "measure id") auto

declare show_nat.simps [simp del]

definition show_int :: "int \<Rightarrow> string" where
  "show_int i = (if i < 0 then ''-'' @ show_nat (nat (- i)) else show_nat (nat i))"

definition EnhancedManager_Init :: "world \<Rightarrow> err option" where
  "EnhancedManager_Init w =
     (case mkdir_all w ''screenshots'' of
        Some e \<Rightarrow> Some (''failed to create screenshots directory: '' @ e)
      | None \<Rightarrow>
          (case client_init w of
             Some e \<Rightarrow> Some (''failed to initialize enhanced browser client: '' @ e)
           | None \<Rightarrow> None))"

definition EnhancedManager_Navigate ::
  "'h browserhttp \<Rightarrow> 'h \<Rightarrow> string \<Rightarrow> string \<Rightarrow> bool \<Rightarrow> (NavigateResult \<times> err option) \<times> 'h"
  where
  "EnhancedManager_Navigate bh h url waitFor screenshot =
     (case bh h (BGet url) of
        (Inl e, h1) \<Rightarrow>
          ((\<lparr>nav_URL = url, nav_Title = [], nav_Screenshot = [], nav_Success = False,
             nav_Message = ''Enhanced navigation failed: '' @ e\<rparr>, None), h1)
      | (Inr resp, h1) \<Rightarrow>
          (case (if waitFor \<noteq> [] then
                   (case bh h1 (BWaitForElement waitFor 10) of
                      (Inl e, h2) \<Rightarrow> ('' (wait failed: '' @ e @ '')'', h2)
                    | (Inr u, h2) \<Rightarrow> ('' (element found)'', h2))
                 else ([], h1)) of
             (waited, h2) \<Rightarrow>
               ((\<lparr>nav_URL = url, nav_Title = header_Title resp,
                  nav_Screenshot =
                    (if screenshot then ''screenshot_captured_by_browserhttp'' else []),
                  nav_Success = True,
                  nav_Message = ''Enhanced navigation successful'' @ waited\<rparr>, None), h2)))"


definition EnhancedManager_ExtractText ::
  "'h browserhttp \<Rightarrow> 'h \<Rightarrow> string \<Rightarrow> (ExtractTextResult \<times> err option) \<times> 'h" where
  "EnhancedManager_ExtractText bh h selector =
     (case bh h (BExtractText selector) of
        (Inl e, h1) \<Rightarrow>
          ((\<lparr>text_Text = [], text_Success = False,
             text_Message = ''Enhanced text extraction failed: '' @ e\<rparr>, None), h1)
      | (Inr v, h1) \<Rightarrow>
          (let texts = bstrings_of v
           in ((\<lparr>text_Text = texts, text_Success = True,
                  text_Message = ''Extracted '' @ show_nat (length texts) @ '' text elements''\<rparr>,
                None), h1)))"

text \<open>
  The loop that types into each field, left at the first error with the selector that
  failed.
\<close>

fun type_fields ::
  "'h browserhttp \<Rightarrow> 'h \<Rightarrow> (string \<times> string) list \<Rightarrow> (string \<times> err) option \<times> 'h" where
  "type_fields bh h [] = (None, h)"
| "type_fields bh h ((selector, v) # rest) =
     (case bh h (BType selector v) of
        (Inl e, h1) \<Rightarrow> (Some (selector, e), h1)
      | (Inr u, h1) \<Rightarrow> type_fields bh h1 rest)"

definition EnhancedManager_submitSelectors :: "string list" where
  "EnhancedManager_submitSelectors =
     [''input[type='submit']'', ''button[type='submit']'', ''form button'', ''.submit-button'']"

text \<open>
  The loop over \<open>submitSelectors\<close> in \<open>EnhancedManager.FillForm\<close>: it clicks until one click
  succeeds and returns \<open>submitted\<close>.
\<close>

fun click_first :: "'h browserhttp \<Rightarrow> 'h \<Rightarrow> string list \<Rightarrow> bool \<times> 'h" where
  "click_first bh h [] = (False, h)"
| "click_first bh h (submitSelector # rest) =
     (case bh h (BClick submitSelector) of
        (Inr u, h1) \<Rightarrow> (True, h1)
      | (Inl e, h1) \<Rightarrow> click_first bh h1 rest)"

definition EnhancedManager_FillForm ::
  "'h browserhttp \<Rightarrow> 'h \<Rightarrow> (string \<times> string) list \<Rightarrow> bool \<Rightarrow> (FillFormResult \<times> err option) \<times> 'h"
  where
  "EnhancedManager_FillForm bh h field_list submit =
     (case type_fields bh h field_list of
        (Some (selector, e), h1) \<Rightarrow>
          ((\<lparr>form_Success = False,
             form_Message = ''Enhanced form filling failed at '' @ selector @ '': '' @ e,
             form_Screenshot = []\<rparr>, None), h1)
      | (None, h1) \<Rightarrow>
          (if submit then
             (case click_first bh h1 EnhancedManager_submitSelectors of
                (submitted, h2) \<Rightarrow>
                  ((\<lparr>form_Success = True,
                     form_Message = ''Enhanced form filled successfully''
                       @ (if submitted then '' and submitted''
                          else '' (submit button not found)''),
                     form_Screenshot = []\<rparr>, None), h2))
           else
             ((\<lparr>form_Success = True, form_Message = ''Enhanced form filled successfully'',
                form_Screenshot = []\<rparr>, None), h1)))"

text \<open>The two conversions between \<open>http.Cookie\<close> and \<open>network.Cookie\<close>.\<close>

definition to_network_cookie :: "HttpCookie \<Rightarrow> Cookie" where
  "to_network_cookie cookie =
     \<lparr>c_Name = h_Name cookie, c_Value = h_Value cookie, c_Domain = [],
      c_Path = h_Path cookie, c_Secure = False, c_HTTPOnly = False\<rparr>"

definition to_http_cookie :: "Cookie \<Rightarrow> HttpCookie" where
  "to_http_cookie cookie =
     \<lparr>h_Name = c_Name cookie, h_Value = c_Value cookie, h_Path = c_Path cookie,
      h_Domain = [], h_Secure = False, h_HttpOnly = False\<rparr>"

definition EnhancedManager_GetSessionData ::
  "'h browserhttp \<Rightarrow> nat \<Rightarrow> 'h \<Rightarrow> SessionData \<Rightarrow> SessionData \<times> 'h" where
  "EnhancedManager_GetSessionData bh now h sessionData =
     (case bh h BGetCookies of
        (r, h1) \<Rightarrow>
          (let sd1 = (case r of
                        Inl e \<Rightarrow> sessionData
                      | Inr v \<Rightarrow> sessionData\<lparr>Cookies := map to_network_cookie (bcookies_of v)\<rparr>);
               sd2 = sd1\<lparr>Timestamp := now\<rparr>
           in case bh h1 (BEvaluate ''window.location.href'') of
                (Inl e, h2) \<Rightarrow> (sd2, h2)
              | (Inr v, h2) \<Rightarrow> (sd2\<lparr>URL := bstring_of v\<rparr>, h2)))"

definition EnhancedManager_RestoreSession ::
  "'h browserhttp \<Rightarrow> 'h \<Rightarrow> SessionData \<Rightarrow> ((string \<rightharpoonup> rvalue) \<times> err option) \<times> 'h" where
  "EnhancedManager_RestoreSession bh h sessionData =
     (let httpCookies = map to_http_cookie (Cookies sessionData);
          restored = [''success'' \<mapsto> RBool True,
                      ''message'' \<mapsto> RString ''Enhanced session restored successfully'',
                      ''url'' \<mapsto> RString (URL sessionData),
                      ''cookies_restored'' \<mapsto> RInt (int (length httpCookies))]
      in case bh h (BSetCookies httpCookies) of
           (Inl e, h1) \<Rightarrow>
             (([''success'' \<mapsto> RBool False,
                ''message'' \<mapsto> RString (''Enhanced session restore failed: '' @ e)], None), h1)
         | (Inr u, h1) \<Rightarrow>
             (if URL sessionData \<noteq> [] then
                (case bh h1 (BGet (URL sessionData)) of
                   (Inl e, h2) \<Rightarrow>
                     (([''success'' \<mapsto> RBool False,
                        ''message'' \<mapsto> RString (''Could not navigate to saved URL: '' @ e)],
                       None), h2)
                 | (Inr r, h2) \<Rightarrow> ((restored, None), h2))
              else ((restored, None), h1)))"

datatype metric = Millis int | Count int | Sizes "(string \<times> int) list"

definition EnhancedManager_GetPerformanceMetrics ::
  "'h browserhttp \<Rightarrow> 'h \<Rightarrow> (err + (string \<rightharpoonup> metric)) \<times> 'h" where
  "EnhancedManager_GetPerformanceMetrics bh h =
     (case bh h BGetPerformanceMetrics of
        (Inl e, h1) \<Rightarrow> (Inl (''failed to get performance metrics: '' @ e), h1)
      | (Inr v, h1) \<Rightarrow>
          (case v of
             BMetrics metrics \<Rightarrow>
               (Inr [''dom_content_loaded'' \<mapsto> Millis (DOMContentLoaded metrics),
                     ''load_complete'' \<mapsto> Millis (LoadComplete metrics),
                     ''first_paint'' \<mapsto> Millis (FirstPaint metrics),
                     ''network_requests'' \<mapsto> Count (NetworkRequests metrics),
                     ''resource_sizes'' \<mapsto> Sizes (ResourceSizes metrics)], h1)
           | _ \<Rightarrow> (Inr Map.empty, h1)))"


section \<open>The tool handlers of the two servers\<close>

text \<open>
  A value of Go's \<open>any\<close> as the type assertion \<open>value.(string)\<close> sees it: a string, or
  something of another dynamic type.
\<close>

datatype 'o go_any = AnyString string | AnyOther 'o

text \<open>
  \<open>mcp.NewToolResultError\<close> and \<open>mcp.NewToolResultText\<close>; the text is the JSON encoding of
  the result, kept here as the result itself. \<open>NewToolResultErrorFromErr(msg, err)\<close> joins
  the message and the error with a colon.
\<close>

datatype 'r CallToolResult = ToolResultError string | ToolResultText 'r

definition NewToolResultErrorFromErr :: "string \<Rightarrow> err \<Rightarrow> 'r CallToolResult" where
  "NewToolResultErrorFromErr msg e = ToolResultError (msg @ '': '' @ e)"

text \<open>
  The conversion loop of both fill-form handlers:
  \<open>if strValue, ok := value.(string); ok { fields[key] = strValue }\<close>.
\<close>

fun string_fields :: "(string \<times> 'o go_any) list \<Rightarrow> (string \<times> string) list" where
  "string_fields [] = []"
| "string_fields ((key, AnyString strValue) # rest) = (key, strValue) # string_fields rest"
| "string_fields ((key, AnyOther v) # rest) = string_fields rest"

text \<open>
  The handlers take the arguments as \<open>mcp.ParseStringMap\<close>, \<open>mcp.ParseString\<close> and
  \<open>mcp.ParseBoolean\<close> return them, and return the tool result, the Go error and the state
  of the browser; a handler of the legacy server does not return when \<open>FillForm\<close> does
  not.
\<close>

definition handleChromeFillForm ::
  "'b chrome \<Rightarrow> 'b \<Rightarrow> (string \<times> 'o go_any) list \<Rightarrow> bool
   \<Rightarrow> ((FillFormResult CallToolResult \<times> err option) \<times> 'b) option" where
  "handleChromeFillForm c b fieldsMap submit =
     (if length fieldsMap = 0 then
        Some ((ToolResultError ''Fields parameter is required'', None), b)
      else
        (case Manager_FillForm c b (string_fields fieldsMap) submit of
           None \<Rightarrow> None
         | Some ((result, Some e), b1) \<Rightarrow>
             Some ((NewToolResultErrorFromErr ''Form filling failed'' e, None), b1)
         | Some ((result, None), b1) \<Rightarrow> Some ((ToolResultText result, None), b1)))"

text \<open>
  The enhanced server holds both managers. \<open>Start\<close> runs the initialisations; what it
  leaves behind before serving is which of them succeeded.
\<close>

record EnhancedMCPChromeServer =
  browser_initialized :: bool
  legacyBrowser :: "Manager option"

definition EnhancedMCPChromeServer_Start :: "world \<Rightarrow> err + EnhancedMCPChromeServer" where
  "EnhancedMCPChromeServer_Start w =
     (case storage_init w of
        Some e \<Rightarrow> Inl (''failed to initialize storage: '' @ e)
      | None \<Rightarrow>
          (case EnhancedManager_Init w of
             None \<Rightarrow> Inr \<lparr>browser_initialized = True, legacyBrowser = None\<rparr>
           | Some e \<Rightarrow>
               (case Manager_Init w of
                  Inl e' \<Rightarrow>
                    Inl (''failed to initialize browser (both enhanced and legacy): '' @ e')
                | Inr m \<Rightarrow> Inr \<lparr>browser_initialized = False, legacyBrowser = Some m\<rparr>)))"

text \<open>
  The handlers of the enhanced server are methods of the server \<open>s\<close>, which reaches the
  Chrome of the legacy manager (\<open>c\<close>, state \<open>b\<close>) and the \<open>browserhttp\<close> client of the
  enhanced manager (\<open>bh\<close>, state \<open>h\<close>); they return both states.
\<close>

text \<open>\<open>%v\<close> of an entry of the metrics map; a missing key prints as \<open><nil>\<close>.\<close>

fun show_sizes :: "(string \<times> int) list \<Rightarrow> string" where
  "show_sizes [] = []"
| "show_sizes [(k, v)] = k @ '':'' @ show_int v"
| "show_sizes ((k, v) # rest) = k @ '':'' @ show_int v @ '' '' @ show_sizes rest"

fun show_metric :: "metric option \<Rightarrow> string" where
  "show_metric (Some (Millis i)) = show_int i"
| "show_metric (Some (Count i)) = show_int i"
| "show_metric (Some (Sizes xs)) = ''map['' @ show_sizes xs @ '']''"
| "show_metric None = ''<nil>''"

definition handleEnhancedNavigate ::
  "'b chrome \<Rightarrow> 'h browserhttp \<Rightarrow> EnhancedMCPChromeServer \<Rightarrow> 'b \<times> 'h
   \<Rightarrow> string \<Rightarrow> string \<Rightarrow> bool \<Rightarrow> bool
   \<Rightarrow> (NavigateResult CallToolResult \<times> err option) \<times> ('b \<times> 'h)" where
  "handleEnhancedNavigate c bh s st url waitFor screenshot trackPerformance =
     (case st of
        (b, h) \<Rightarrow>
          (if url = [] then ((ToolResultError ''URL parameter is required'', None), (b, h))
           else
             (case EnhancedManager_Navigate bh h url waitFor screenshot of
                ((result, Some e), h1) \<Rightarrow>
                  ((NewToolResultErrorFromErr ''Enhanced navigation failed'' e, None), (b, h1))
              | ((result, None), h1) \<Rightarrow>
                  (if trackPerformance then
                     (case EnhancedManager_GetPerformanceMetrics bh h1 of
                        (Inr metrics, h2) \<Rightarrow>
                          ((ToolResultText
                              (result\<lparr>nav_Message := nav_Message result @ '' (Load time: ''
                                 @ show_metric (metrics ''load_complete'') @ '')''\<rparr>),
                            None), (b, h2))
                      | (Inl e, h2) \<Rightarrow> ((ToolResultText result, None), (b, h2)))
                   else ((ToolResultText result, None), (b, h1))))))"

definition handleEnhancedFillForm ::
  "'b chrome \<Rightarrow> 'h browserhttp \<Rightarrow> EnhancedMCPChromeServer \<Rightarrow> 'b \<times> 'h
   \<Rightarrow> (string \<times> 'o go_any) list \<Rightarrow> bool \<Rightarrow> bool
   \<Rightarrow> (FillFormResult CallToolResult \<times> err option) \<times> ('b \<times> 'h)" where
  "handleEnhancedFillForm c bh s st fieldsMap submit validate =
     (case st of
        (b, h) \<Rightarrow>
          (if length fieldsMap = 0 then
             ((ToolResultError ''Fields parameter is required'', None), (b, h))
           else
             (case EnhancedManager_FillForm bh h (string_fields fieldsMap) submit of
                ((result, Some e), h1) \<Rightarrow>
                  ((NewToolResultErrorFromErr ''Enhanced form filling failed'' e, None), (b, h1))
              | ((result, None), h1) \<Rightarrow>
                  ((ToolResultText
                      (if validate \<and> submit
                       then result\<lparr>form_Message :=
                              form_Message result @ '' (validated before submission)''\<rparr>
                       else result), None), (b, h1)))))"

section \<open>Notions of the specification, test doubles and sample inputs\<close>

text \<open>
  A candidate port is live and verified when its debug URL answers the probe of
  \<open>/json\<close> with status 200 and the verification call on a live context for it returns
  no error. This is stated on the outside world, not through the code's probe.
\<close>

definition live_and_verified :: "world \<Rightarrow> string \<Rightarrow> bool" where
  "live_and_verified w port =
     (http_get w (''http://localhost:'' @ port @ ''/json'') = Inr 200
      \<and> verify_candidate w (''http://localhost:'' @ port) = None)"

text \<open>The debug URLs probed, in order.\<close>

fun probed :: "event list \<Rightarrow> string list" where
  "probed [] = []"
| "probed (Probe u # evs) = u # probed evs"
| "probed (e # evs) = probed evs"

text \<open>
  A machine where port 9222 does not answer, port 9223 answers and fails verification,
  and port 9224 answers and passes; and a machine with no Chrome at all.
\<close>

definition third_port_world :: world where
  "third_port_world =
     \<lparr>http_get = (\<lambda>u. if u = ''http://localhost:9222/json'' then Inl ''connection refused''
                      else Inr 200),
      verify_candidate =
        (\<lambda>u. if u = ''http://localhost:9223'' then Some ''context deadline exceeded''
             else None),
      test_connection = (\<lambda>u. None),
      mkdir_all = (\<lambda>d. None),
      client_init = None,
      storage_init = None\<rparr>"

definition no_chrome_world :: world where
  "no_chrome_world =
     \<lparr>http_get = (\<lambda>u. Inl ''connection refused''),
      verify_candidate = (\<lambda>u. Some ''connection refused''),
      test_connection = (\<lambda>u. Some ''connection refused''),
      mkdir_all = (\<lambda>d. None),
      client_init = Some ''no browser'',
      storage_init = None\<rparr>"

text \<open>
  A Chrome whose state is the list of the actions performed on it and whose outcomes
  are given by \<open>script\<close>; and a \<open>browserhttp\<close> client in the same way, failing the calls
  that \<open>fails\<close> names.
\<close>

definition scripted_chrome :: "(action \<Rightarrow> outcome) \<Rightarrow> action list chrome" where
  "scripted_chrome script =
     \<lparr>perform = (\<lambda>log a. (script a, log @ [a])),
      EncodeToString = (\<lambda>d. [])\<rparr>"

definition scripted_client :: "(bh_call \<Rightarrow> err option) \<Rightarrow> bh_call list browserhttp" where
  "scripted_client fails =
     (\<lambda>log a. ((case fails a of Some e \<Rightarrow> Inl e | None \<Rightarrow> Inr BUnit), log @ [a]))"

fun accepts_all :: "action \<Rightarrow> outcome" where
  "accepts_all a = Done VUnit"

fun client_accepts_all :: "bh_call \<Rightarrow> err option" where
  "client_accepts_all a = None"


definition unnamed_then_sid :: SessionData where
  "unnamed_then_sid =
     \<lparr>Cookies = [\<lparr>c_Name = [], c_Value = ''x'', c_Domain = ''example.com'', c_Path = ''/'',
                   c_Secure = False, c_HTTPOnly = False\<rparr>,
                 \<lparr>c_Name = ''sid'', c_Value = ''abc'', c_Domain = ''example.com'', c_Path = ''/'',
                   c_Secure = True, c_HTTPOnly = True\<rparr>],
      URL = ''https://example.com/'', UserAgent = [], Timestamp = 0\<rparr>"


text \<open>
  A page without a submit control, in three forms: every click fails; every click waits
  for an element that never appears; and, for the \<open>browserhttp\<close> client, every click
  fails.
\<close>

fun no_submit_control :: "action \<Rightarrow> outcome" where
  "no_submit_control (AClick s) = Failed ''element not found''"
| "no_submit_control a = Done VUnit"

fun waits_for_click :: "action \<Rightarrow> outcome" where
  "waits_for_click (AClick s) = Hang"
| "waits_for_click a = Done VUnit"

fun client_no_submit_control :: "bh_call \<Rightarrow> err option" where
  "client_no_submit_control (BClick s) = Some ''element not found''"
| "client_no_submit_control a = None"


text \<open>
  A \<open>browserhttp\<close> client and a Chrome that keep a location and a cookie jar: setting a
  cookie replaces the cookie of the same key and keeps the others. A browsing session
  with one secure, http-only cookie, for each of them; and the session data of a new
  manager.
\<close>

definition cookie_jar_client :: "(string \<times> HttpCookie list) browserhttp" where
  "cookie_jar_client st call =
     (case call of
        BGetCookies \<Rightarrow> (Inr (BCookies (snd st)), st)
      | BSetCookies cs \<Rightarrow>
          (Inr BUnit,
           (fst st,
            cs @ filter (\<lambda>old. (h_Name old, h_Path old)
                                \<notin> set (map (\<lambda>new. (h_Name new, h_Path new)) cs)) (snd st)))
      | BGet u \<Rightarrow> (Inr (BResponse []), (u, snd st))
      | BEvaluate script \<Rightarrow> (Inr (BString (fst st)), st)
      | _ \<Rightarrow> (Inr BUnit, st))"

definition cookie_jar_chrome :: "(string \<times> Cookie list) chrome" where
  "cookie_jar_chrome =
     \<lparr>perform = (\<lambda>st a.
        (case a of
           AGetCookies \<Rightarrow> (Done (VCookies (snd st)), st)
         | ALocation \<Rightarrow> (Done (VString (fst st)), st)
         | ANavigate u \<Rightarrow> (Done VUnit, (u, snd st))
         | ASetCookie n v d p s h \<Rightarrow>
             (Done VUnit,
              (fst st,
               \<lparr>c_Name = n, c_Value = v, c_Domain = d, c_Path = p, c_Secure = s,
                c_HTTPOnly = h\<rparr>
               # filter (\<lambda>old. (c_Name old, c_Domain old, c_Path old) \<noteq> (n, d, p)) (snd st)))
         | _ \<Rightarrow> (Done VUnit, st))),
      EncodeToString = (\<lambda>d. [])\<rparr>"

definition logged_in_client :: "string \<times> HttpCookie list" where
  "logged_in_client =
     (''https://example.com/'',
      [\<lparr>h_Name = ''sid'', h_Value = ''abc'', h_Path = ''/'', h_Domain = ''example.com'',
        h_Secure = True, h_HttpOnly = True\<rparr>])"

definition logged_in_chrome :: "string \<times> Cookie list" where
  "logged_in_chrome =
     (''https://example.com/'',
      [\<lparr>c_Name = ''sid'', c_Value = ''abc'', c_Domain = ''example.com'', c_Path = ''/'',
        c_Secure = True, c_HTTPOnly = True\<rparr>])"

definition new_SessionData :: SessionData where
  "new_SessionData = \<lparr>Cookies = [], URL = [], UserAgent = [], Timestamp = 0\<rparr>"

text \<open>
  A machine where Chrome answers on port 9222 and passes every check made on a live
  context, and the \<open>browserhttp\<close> client cannot be initialised; and a client on which
  every call fails.
\<close>

definition enhanced_down_world :: world where
  "enhanced_down_world =
     \<lparr>http_get = (\<lambda>u. if u = ''http://localhost:9222/json'' then Inr 200
                      else Inl ''connection refused''),
      verify_candidate = (\<lambda>u. None),
      test_connection = (\<lambda>u. None),
      mkdir_all = (\<lambda>d. None),
      client_init = Some ''browser not initialized'',
      storage_init = None\<rparr>"



section \<open>Properties: attaching\<close>

lemma isDebugPortAvailable_iff:
  "isDebugPortAvailable w (debugURL_of port)
     = (http_get w (''http://localhost:'' @ port @ ''/json'') = Inr 200)"
  by (simp add: isDebugPortAvailable_def debugURL_of_def split: sum.splits)

lemma connect_ports_result:
  "fst (connect_ports w ps) =
     map_option (\<lambda>p. \<lparr>ctx_endpoint = debugURL_of p, ctx_cancelled = True\<rparr>)
       (find (live_and_verified w) ps)"
proof (induction ps)
  case Nil
  then show ?case by simp
next
  case (Cons p ps)
  have lv: "live_and_verified w p
      = (isDebugPortAvailable w (debugURL_of p) \<and> verify_candidate w (debugURL_of p) = None)"
    by (simp add: live_and_verified_def isDebugPortAvailable_def debugURL_of_def
        split: sum.splits)
  show ?case
    using Cons.IH
    by (cases "connect_ports w ps")
       (auto simp: lv Let_def verify_def WithTimeout_def parent_cancelled_def NewContext_def
          NewRemoteAllocator_def)
qed

lemma connect_ports_probed:
  "probed (snd (connect_ports w ps)) =
     map debugURL_of (takeWhile (\<lambda>p. \<not> live_and_verified w p) ps
                      @ take 1 (dropWhile (\<lambda>p. \<not> live_and_verified w p) ps))"
proof (induction ps)
  case Nil
  then show ?case by simp
next
  case (Cons p ps)
  have lv: "live_and_verified w p
      = (isDebugPortAvailable w (debugURL_of p) \<and> verify_candidate w (debugURL_of p) = None)"
    by (simp add: live_and_verified_def isDebugPortAvailable_def debugURL_of_def
        split: sum.splits)
  show ?case
    using Cons.IH
    by (cases "connect_ports w ps")
       (auto simp: lv Let_def verify_def WithTimeout_def NewContext_def
          NewRemoteAllocator_def)
qed

lemma probed_append_TestCancel: "probed (evs @ map TestCancel us) = probed evs"
  by (induction evs rule: probed.induct) (simp_all, induction us, simp_all)

text \<open>
  Which candidate is chosen: the context returned is the one made for the first
  candidate, in the order 9222, 9223, 9224, that is live and verified (none when there is
  none); the candidates probed are those before it and itself; and the choice depends on
  nothing but which candidates are live and verified.
\<close>

lemma connectToExistingChrome_result:
  "fst (connectToExistingChrome w) =
     map_option (\<lambda>p. \<lparr>ctx_endpoint = debugURL_of p, ctx_cancelled = True\<rparr>)
       (find (live_and_verified w) candidate_ports)"
  by (simp add: connectToExistingChrome_def connect_ports_result [symmetric]
      split: prod.splits)

lemma connectToExistingChrome_probed:
  "probed (snd (connectToExistingChrome w)) =
     map debugURL_of (takeWhile (\<lambda>p. \<not> live_and_verified w p) candidate_ports
                      @ take 1 (dropWhile (\<lambda>p. \<not> live_and_verified w p) candidate_ports))"
proof -
  obtain c evs where p: "connect_ports w candidate_ports = (c, evs)"
    by (cases "connect_ports w candidate_ports")
  have "probed (snd (connectToExistingChrome w)) = probed (snd (connect_ports w candidate_ports))"
    by (simp add: connectToExistingChrome_def p probed_append_TestCancel)
  then show ?thesis by (simp only: connect_ports_probed)
qed

lemma find_cong_set: "(\<forall>p\<in>set ps. P p = Q p) \<Longrightarrow> find P ps = find Q ps"
  by (induction ps) auto

lemma connectToExistingChrome_same:
  "(\<forall>p\<in>set candidate_ports. live_and_verified w p = live_and_verified w' p) \<Longrightarrow>
   fst (connectToExistingChrome w) = fst (connectToExistingChrome w')"
  using find_cong_set[of candidate_ports "live_and_verified w" "live_and_verified w'"]
  by (simp add: connectToExistingChrome_result)

text \<open>Every context the function returns has been cancelled.\<close>

lemma connectToExistingChrome_cancelled:
  "fst (connectToExistingChrome w) = Some found \<Longrightarrow> ctx_cancelled found"
  by (auto simp: connectToExistingChrome_result)

lemma testConnection_cancelled:
  "ctx_cancelled m_ctx \<Longrightarrow> testConnection w m_ctx = Some ''context canceled''"
  by (simp add: testConnection_def WithTimeout_def)

lemma Manager_Init_ctx_cancelled: "ctx_cancelled (Manager_Init_ctx w)"
  by (auto simp: Manager_Init_ctx_def parent_cancelled_def connectToExistingChrome_cancelled
      split: option.splits)

text \<open>
  So the connection test of \<open>Init\<close> runs on a cancelled context on both paths, and
  \<open>Init\<close> returns the connect error whatever the machine.
\<close>

lemma Manager_Init_fails: "Manager_Init w = Inl (connect_error ''context canceled'')"
  by (simp add: Manager_Init_def testConnection_cancelled Manager_Init_ctx_cancelled)

text \<open>
  Claim C2 fails on every machine with a live and verified candidate. Here port 9222
  does not answer, 9223 answers and fails verification and 9224 passes: the function
  returns the context made for 9224 after calling \<open>allocCancel()\<close> on the allocator
  context it is derived from, so the context is cancelled and the connection test that
  \<open>Init\<close> runs on it next fails.
\<close>

theorem attach_returns_cancelled_context:
  "fst (connectToExistingChrome third_port_world)
     = Some \<lparr>ctx_endpoint = ''http://localhost:9224'', ctx_cancelled = True\<rparr>
   \<and> snd (connectToExistingChrome third_port_world)
     = [Probe ''http://localhost:9222'',
        Probe ''http://localhost:9223'', Verify ''http://localhost:9223'',
        Cancel ''http://localhost:9223'', AllocCancel ''http://localhost:9223'',
        Probe ''http://localhost:9224'', Verify ''http://localhost:9224'',
        AllocCancel ''http://localhost:9224'',
        TestCancel ''http://localhost:9224'', TestCancel ''http://localhost:9223'']
   \<and> testConnection third_port_world
        \<lparr>ctx_endpoint = ''http://localhost:9224'', ctx_cancelled = True\<rparr>
     = Some ''context canceled''
   \<and> Manager_Init third_port_world = Inl (connect_error ''context canceled'')"
proof (intro conjI)
  have cp: "connect_ports third_port_world candidate_ports =
     (Some \<lparr>ctx_endpoint = ''http://localhost:9224'', ctx_cancelled = True\<rparr>,
      [Probe ''http://localhost:9222'',
        Probe ''http://localhost:9223'', Verify ''http://localhost:9223'',
        Cancel ''http://localhost:9223'', AllocCancel ''http://localhost:9223'',
        Probe ''http://localhost:9224'', Verify ''http://localhost:9224'',
        AllocCancel ''http://localhost:9224''])"
    by (simp add: candidate_ports_def debugURL_of_def isDebugPortAvailable_def verify_def
        WithTimeout_def NewContext_def NewRemoteAllocator_def parent_cancelled_def
        third_port_world_def Let_def)
  show "fst (connectToExistingChrome third_port_world)
     = Some \<lparr>ctx_endpoint = ''http://localhost:9224'', ctx_cancelled = True\<rparr>"
    by (simp add: connectToExistingChrome_def cp)
  show "snd (connectToExistingChrome third_port_world)
     = [Probe ''http://localhost:9222'',
        Probe ''http://localhost:9223'', Verify ''http://localhost:9223'',
        Cancel ''http://localhost:9223'', AllocCancel ''http://localhost:9223'',
        Probe ''http://localhost:9224'', Verify ''http://localhost:9224'',
        AllocCancel ''http://localhost:9224'',
        TestCancel ''http://localhost:9224'', TestCancel ''http://localhost:9223'']"
    by (simp add: connectToExistingChrome_def cp)
  show "testConnection third_port_world
        \<lparr>ctx_endpoint = ''http://localhost:9224'', ctx_cancelled = True\<rparr>
     = Some ''context canceled''"
    by (simp add: testConnection_def WithTimeout_def)
  show "Manager_Init third_port_world = Inl (connect_error ''context canceled'')"
    by (rule Manager_Init_fails)
qed

lemma sublist_remediation:
  "sublist ''google-chrome --remote-debugging-port=9222'' (connect_error e)"
  unfolding sublist_def connect_error_def
  by (rule exI[of _ "''failed to connect to Chrome: '' @ e @
     [CHR 0x0A, CHR 0x0A, CHR 0xF0, CHR 0x9F, CHR 0x92, CHR 0xA1] @
     '' Make sure Chrome is running with debugging enabled:'' @ [CHR 0x0A] @ ''   ''"],
      rule exI[of _ "[]"]) simp

text \<open>
  Claim C3. When no candidate port is live and verified, \<open>Manager.Init\<close> takes a context
  on the default endpoint \<open>http://localhost:9222\<close> and tests the connection on it; when
  that test fails, \<open>Init\<close> returns the connect error made from the error of the test, and
  its message contains \<open>google-chrome --remote-debugging-port=9222\<close>.
\<close>

theorem init_fallback_remediation:
  assumes "\<forall>p\<in>set candidate_ports. \<not> live_and_verified w p"
  shows "(\<forall>e. test_connection w ''http://localhost:9222'' = Some e \<longrightarrow>
            (\<exists>msg. Manager_Init w = Inl msg
                   \<and> sublist ''google-chrome --remote-debugging-port=9222'' msg))
       \<and> ctx_endpoint (Manager_Init_ctx w) = ''http://localhost:9222''
       \<and> (\<forall>e. testConnection w (Manager_Init_ctx w) = Some e \<longrightarrow>
            Manager_Init w = Inl (connect_error e)
            \<and> sublist ''google-chrome --remote-debugging-port=9222'' (connect_error e))"
proof -
  have "find (live_and_verified w) candidate_ports = None"
    using assms by (simp add: find_None_iff)
  then have none: "fst (connectToExistingChrome w) = None"
    by (simp add: connectToExistingChrome_result)
  have endpoint: "ctx_endpoint (Manager_Init_ctx w) = ''http://localhost:9222''"
    by (simp add: Manager_Init_ctx_def none parent_cancelled_def NewContext_def
        NewRemoteAllocator_def)
  have fails: "Manager_Init w = Inl (connect_error e)"
    if "testConnection w (Manager_Init_ctx w) = Some e" for e
    using that by (simp add: Manager_Init_def)
  have "\<exists>msg. Manager_Init w = Inl msg
                   \<and> sublist ''google-chrome --remote-debugging-port=9222'' msg"
    using Manager_Init_fails[of w] sublist_remediation[of "''context canceled''"] by simp
  with endpoint fails sublist_remediation show ?thesis by simp
qed

theorem init_fallback_remediation_witness:
  "\<not> live_and_verified no_chrome_world ''9222''
   \<and> \<not> live_and_verified no_chrome_world ''9223''
   \<and> \<not> live_and_verified no_chrome_world ''9224''
   \<and> test_connection no_chrome_world ''http://localhost:9222'' = Some ''connection refused''
   \<and> ctx_endpoint (Manager_Init_ctx no_chrome_world) = ''http://localhost:9222''
   \<and> (\<exists>msg. Manager_Init no_chrome_world = Inl msg
            \<and> sublist ''google-chrome --remote-debugging-port=9222'' msg)"
proof -
  have n: "\<not> live_and_verified no_chrome_world p" for p
    by (simp add: live_and_verified_def no_chrome_world_def)
  then have h: "\<forall>p\<in>set candidate_ports. \<not> live_and_verified no_chrome_world p"
    by simp
  have t: "test_connection no_chrome_world ''http://localhost:9222''
             = Some ''connection refused''"
    by (simp add: no_chrome_world_def)
  note r = init_fallback_remediation [OF h]
  from r t
  have m: "\<exists>msg. Manager_Init no_chrome_world = Inl msg
            \<and> sublist ''google-chrome --remote-debugging-port=9222'' msg"
    by blast
  from r have e: "ctx_endpoint (Manager_Init_ctx no_chrome_world) = ''http://localhost:9222''"
    by (rule conjunct2 [THEN conjunct1])
  from n t e m show ?thesis by blast
qed


section \<open>Properties: running actions\<close>

lemma Run_append:
  "Run c d b (xs @ ys) =
     (case Run c d b xs of
        None \<Rightarrow> None
      | Some (Inl e, b1) \<Rightarrow> Some (Inl e, b1)
      | Some (Inr vs, b1) \<Rightarrow>
          (case Run c d b1 ys of
             None \<Rightarrow> None
           | Some (Inl e, b2) \<Rightarrow> Some (Inl e, b2)
           | Some (Inr ws, b2) \<Rightarrow> Some (Inr (vs @ ws), b2)))"
proof (induction xs arbitrary: b)
  case Nil
  then show ?case by (simp split: option.splits prod.splits sum.splits)
next
  case (Cons x xs)
  obtain o1 b1 where p: "perform c b x = (o1, b1)" by (cases "perform c b x")
  show ?case
  proof (cases o1)
    case (Done v)
    then show ?thesis
      using p Cons.IH[of b1] by (simp split: option.splits prod.splits sum.splits)
  next
    case (Failed e)
    then show ?thesis using p by simp
  next
    case Hang
    then show ?thesis using p by simp
  qed
qed


lemma Run_hangs:
  assumes "Run c False b pre = Some (Inr vs, b1)" and "perform c b1 a = (Hang, b2)"
  shows "Run c False b (pre @ a # post) = None"
  using assms by (simp add: Run_append)

lemma Run_length: "Run c d b xs = Some (Inr vs, b') \<Longrightarrow> length vs = length xs"
  by (induction xs arbitrary: b vs b')
     (auto split: prod.splits sum.splits option.splits outcome.splits if_splits)


text \<open>A run on a context without a deadline does not return exactly when an action hangs.\<close>

lemma Run_None_decompose:
  "Run c False b xs = None \<Longrightarrow>
   \<exists>pre a post vs b1 b2. xs = pre @ a # post \<and> Run c False b pre = Some (Inr vs, b1)
        \<and> perform c b1 a = (Hang, b2)"
proof (induction xs arbitrary: b)
  case Nil
  then show ?case by simp
next
  case (Cons x xs)
  obtain o1 b1 where p: "perform c b x = (o1, b1)" by (cases "perform c b x")
  show ?case
  proof (cases o1)
    case (Done v)
    with p Cons.prems have "Run c False b1 xs = None"
      by (auto split: prod.splits sum.splits option.splits)
    from Cons.IH[OF this] obtain pre a post vs b2 b3 where
      h: "xs = pre @ a # post" "Run c False b1 pre = Some (Inr vs, b2)"
         "perform c b2 a = (Hang, b3)"
      by blast
    have "x # xs = (x # pre) @ a # post" using h(1) by simp
    moreover have "Run c False b (x # pre) = Some (Inr (v # vs), b2)"
      using h(2) p Done by simp
    ultimately show ?thesis using h(3) by blast
  next
    case (Failed e)
    with p Cons.prems show ?thesis by simp
  next
    case Hang
    with p have "x # xs = [] @ x # xs \<and> Run c False b [] = Some (Inr [], b)
        \<and> perform c b x = (Hang, b1)" by simp
    then show ?thesis by blast
  qed
qed

lemma Run_None_iff:
  "Run c False b xs = None \<longleftrightarrow>
   (\<exists>pre a post vs b1 b2. xs = pre @ a # post \<and> Run c False b pre = Some (Inr vs, b1)
        \<and> perform c b1 a = (Hang, b2))"
proof
  assume "Run c False b xs = None"
  then show "\<exists>pre a post vs b1 b2. xs = pre @ a # post
        \<and> Run c False b pre = Some (Inr vs, b1) \<and> perform c b1 a = (Hang, b2)"
    by (rule Run_None_decompose)
next
  assume "\<exists>pre a post vs b1 b2. xs = pre @ a # post
        \<and> Run c False b pre = Some (Inr vs, b1) \<and> perform c b1 a = (Hang, b2)"
  then obtain pre a post vs b1 b2 where
    h: "xs = pre @ a # post" "Run c False b pre = Some (Inr vs, b1)"
       "perform c b1 a = (Hang, b2)"
    by blast
  from Run_hangs[OF h(2) h(3), of post] h(1) show "Run c False b xs = None" by simp
qed

lemma Run_fails_decompose:
  "Run c False b xs = Some (Inl e, b') \<Longrightarrow>
   \<exists>pre a post vs b1. xs = pre @ a # post \<and> Run c False b pre = Some (Inr vs, b1)
        \<and> perform c b1 a = (Failed e, b')"
proof (induction xs arbitrary: b)
  case Nil
  then show ?case by simp
next
  case (Cons x xs)
  obtain o1 b1 where p: "perform c b x = (o1, b1)" by (cases "perform c b x")
  show ?case
  proof (cases o1)
    case (Done v)
    with p Cons.prems have "Run c False b1 xs = Some (Inl e, b')"
      by (auto split: prod.splits sum.splits option.splits)
    from Cons.IH[OF this] obtain pre a post vs b2 where
      h: "xs = pre @ a # post" "Run c False b1 pre = Some (Inr vs, b2)"
         "perform c b2 a = (Failed e, b')"
      by blast
    have "x # xs = (x # pre) @ a # post" using h(1) by simp
    moreover have "Run c False b (x # pre) = Some (Inr (v # vs), b2)"
      using h(2) p Done by simp
    ultimately show ?thesis using h(3) by blast
  next
    case (Failed e')
    with p Cons.prems have "e' = e" "b1 = b'" by simp_all
    with p Failed have "x # xs = [] @ x # xs \<and> Run c False b [] = Some (Inr [], b)
        \<and> perform c b x = (Failed e, b')" by simp
    then show ?thesis by blast
  next
    case Hang
    with p Cons.prems show ?thesis by simp
  qed
qed

lemma scripted_chrome_step:
  "map_option snd (Run (scripted_chrome accepts_all) d log (a # as))
     = map_option snd (Run (scripted_chrome accepts_all) d (log @ [a]) as)"
  by (simp add: scripted_chrome_def split: prod.splits sum.splits option.splits)

lemma scripted_chrome_log:
  "map_option snd (Run (scripted_chrome accepts_all) d log as) = Some (log @ as)"
proof (induction as arbitrary: log)
  case Nil
  then show ?case by simp
next
  case (Cons a as)
  show ?case by (simp only: scripted_chrome_step Cons.IH) simp
qed

section \<open>Properties: restoring a session\<close>





lemma Manager_RestoreSession_state:
  "map_option snd (Manager_RestoreSession c b sd)
     = map_option snd (Run c False b (restore_actions sd))"
  by (simp add: Manager_RestoreSession_def split: option.splits prod.splits sum.splits)











text \<open>
  The order of \<open>Manager.RestoreSession\<close>: the navigation to a non-empty URL comes
  first, then the cookies in list order on the state the navigation
  left; a failed navigation ends the call before any cookie, and an empty URL skips the
  navigation.
\<close>

lemma Manager_RestoreSession_navigates_first:
  "URL sd \<noteq> [] \<Longrightarrow> perform c b (ANavigate (URL sd)) = (Done v, b1) \<Longrightarrow>
   map_option snd (Manager_RestoreSession c b sd)
     = map_option snd (Run c False b1 (map set_cookie_action (Cookies sd)))"
  by (simp add: Manager_RestoreSession_state restore_actions_def
      split: option.splits prod.splits sum.splits)

lemma Manager_RestoreSession_navigation_failed:
  "URL sd \<noteq> [] \<Longrightarrow> perform c b (ANavigate (URL sd)) = (Failed e, b1) \<Longrightarrow>
   map_option snd (Manager_RestoreSession c b sd) = Some b1"
  by (simp add: Manager_RestoreSession_state restore_actions_def)

lemma Manager_RestoreSession_no_url:
  "URL sd = [] \<Longrightarrow>
   map_option snd (Manager_RestoreSession c b sd)
     = map_option snd (Run c False b (map set_cookie_action (Cookies sd)))"
  by (simp add: Manager_RestoreSession_state restore_actions_def)

lemma Manager_RestoreSession_actions:
  "map_option snd (Manager_RestoreSession (scripted_chrome accepts_all) [] sd)
     = Some ((if URL sd \<noteq> [] then [ANavigate (URL sd)] else [])
              @ map set_cookie_action (Cookies sd))"
  by (simp only: Manager_RestoreSession_state scripted_chrome_log restore_actions_def
      append_Nil)

text \<open>
  Claim C7 fails for \<open>EnhancedManager.RestoreSession\<close>: on a client that accepts every
  call it first passes the cookies to \<open>SetCookies\<close> and navigates afterwards, where the
  claim, and \<open>Manager.RestoreSession\<close> on the same record, navigate first.
\<close>

theorem enhanced_restore_sets_cookies_first:
  "snd (EnhancedManager_RestoreSession (scripted_client client_accepts_all) [] unnamed_then_sid)
     = [BSetCookies
          [\<lparr>h_Name = [], h_Value = ''x'', h_Path = ''/'', h_Domain = [],
            h_Secure = False, h_HttpOnly = False\<rparr>,
           \<lparr>h_Name = ''sid'', h_Value = ''abc'', h_Path = ''/'', h_Domain = [],
            h_Secure = False, h_HttpOnly = False\<rparr>],
        BGet ''https://example.com/'']
   \<and> map_option snd
         (Manager_RestoreSession (scripted_chrome accepts_all) [] unnamed_then_sid)
     = Some [ANavigate ''https://example.com/'',
             ASetCookie [] ''x'' ''example.com'' ''/'' False False,
             ASetCookie ''sid'' ''abc'' ''example.com'' ''/'' True True]"
  by (simp add: EnhancedManager_RestoreSession_def scripted_client_def unnamed_then_sid_def
      to_http_cookie_def Manager_RestoreSession_def restore_actions_def set_cookie_action_def
      scripted_chrome_def)

section \<open>Properties: failures of the primitives\<close>
















lemma EnhancedManager_FillForm_nil:
  "snd (fst (EnhancedManager_FillForm bh h field_list submit)) = None"
  by (simp add: EnhancedManager_FillForm_def split: prod.splits option.splits)











section \<open>Properties: filling a form\<close>

lemma Manager_submit_first_only:
  "Manager_submit_actions Manager_submitSelectors = [AClick ''input[type='submit']'']"
  by (simp add: Manager_submitSelectors_def)

text \<open>
  Claim C5 holds for \<open>EnhancedManager.FillForm\<close> (\<open>EnhancedManager_FillForm_submit_not_found\<close>
  and the lemmas below) and fails for \<open>Manager.FillForm\<close>: its loop over the submit
  selectors appends a click on the first selector only and breaks, and the click is part
  of the same run as the fields. On a page where the fields fill and no submit control
  matches, the result is \<open>success = false\<close> when the click fails, and the call does not
  return when the click waits for the control.
\<close>

theorem legacy_fill_form_missing_submit:
  "Manager_FillForm (scripted_chrome no_submit_control) [] [(''#email'', ''a@b.c'')] True
     = Some ((\<lparr>form_Success = False,
               form_Message = ''Form filling failed: element not found'',
               form_Screenshot = []\<rparr>, None),
             [ASendKeys ''#email'' ''a@b.c'', AClick ''input[type='submit']''])
   \<and> Manager_FillForm (scripted_chrome waits_for_click) [] [(''#email'', ''a@b.c'')] True
     = None"
  by (simp add: Manager_FillForm_def fill_form_actions_def Manager_submitSelectors_def
      scripted_chrome_def)

lemma EnhancedManager_FillForm_success:
  "form_Success (fst (fst (EnhancedManager_FillForm bh h field_list submit)))
     = (fst (type_fields bh h field_list) = None)"
  by (auto simp: EnhancedManager_FillForm_def split: prod.splits option.splits)

lemma click_first_False:
  "click_first bh h sels = (False, h') \<Longrightarrow> sel \<in> set sels \<Longrightarrow>
   \<exists>h0 e h1. bh h0 (BClick sel) = (Inl e, h1)"
proof (induction sels arbitrary: h)
  case Nil
  then show ?case by simp
next
  case (Cons x xs)
  obtain r h1 where p: "bh h (BClick x) = (r, h1)" by (cases "bh h (BClick x)")
  show ?case
  proof (cases r)
    case (Inl e)
    show ?thesis
    proof (cases "sel = x")
      case True
      with p Inl show ?thesis by blast
    next
      case False
      with Cons.prems have "sel \<in> set xs" by simp
      moreover from Cons.prems(1) p Inl have "click_first bh h1 xs = (False, h')" by simp
      ultimately show ?thesis by (rule Cons.IH[rotated])
    qed
  next
    case (Inr v)
    with p Cons.prems(1) show ?thesis by simp
  qed
qed

lemma EnhancedManager_FillForm_missing_submit:
  "EnhancedManager_FillForm (scripted_client client_no_submit_control) []
      [(''#email'', ''a@b.c'')] True
     = ((\<lparr>form_Success = True,
          form_Message = ''Enhanced form filled successfully (submit button not found)'',
          form_Screenshot = []\<rparr>, None),
        [BType ''#email'' ''a@b.c'', BClick ''input[type='submit']'',
         BClick ''button[type='submit']'', BClick ''form button'', BClick ''.submit-button''])"
  by (simp add: EnhancedManager_FillForm_def EnhancedManager_submitSelectors_def
      scripted_client_def)

text \<open>
  Values that are not strings. Both handlers pass to \<open>FillForm\<close> the entries of the fields map
  whose values are strings, in order, and drop the others. A request whose fields map is
  not empty and has no string value passes the required-parameter check and \<open>FillForm\<close>
  gets no field. The enhanced handler then reports success; the legacy handler reports
  success with \<open>submit = false\<close>, and with \<open>submit = true\<close> when the click on the first
  submit selector succeeds.
\<close>

lemma string_fields_map_filter:
  "string_fields fm =
     List.map_filter (\<lambda>(key, v). case v of AnyString s \<Rightarrow> Some (key, s) | AnyOther x \<Rightarrow> None) fm"
  by (induction fm rule: string_fields.induct) simp_all

lemma string_fields_none:
  "(\<forall>kv\<in>set fm. \<forall>s. snd kv \<noteq> AnyString s) \<Longrightarrow> string_fields fm = []"
  by (induction fm rule: string_fields.induct) simp_all

lemma handleChromeFillForm_passes:
  "fm \<noteq> [] \<Longrightarrow>
   handleChromeFillForm c b fm submit =
     map_option (\<lambda>((result, e), b1). ((ToolResultText result, None), b1))
       (Manager_FillForm c b (string_fields fm) submit)"
  by (simp add: handleChromeFillForm_def Manager_FillForm_def
      split: option.splits prod.splits sum.splits)

lemma handleEnhancedFillForm_passes:
  "fm \<noteq> [] \<Longrightarrow>
   handleEnhancedFillForm c bh s (b, h) fm submit validate =
     ((ToolResultText
         (if validate \<and> submit
          then (fst (fst (EnhancedManager_FillForm bh h (string_fields fm) submit)))
                 \<lparr>form_Message :=
                    form_Message (fst (fst (EnhancedManager_FillForm bh h (string_fields fm) submit)))
                    @ '' (validated before submission)''\<rparr>
          else fst (fst (EnhancedManager_FillForm bh h (string_fields fm) submit))), None),
      (b, snd (EnhancedManager_FillForm bh h (string_fields fm) submit)))"
proof -
  assume ne: "fm \<noteq> []"
  obtain r e h1 where p: "EnhancedManager_FillForm bh h (string_fields fm) submit = ((r, e), h1)"
    by (metis surj_pair)
  with EnhancedManager_FillForm_nil[of bh h "string_fields fm" submit] have "e = None" by simp
  with p ne show ?thesis by (cases submit) (simp_all add: handleEnhancedFillForm_def)
qed

lemma Manager_FillForm_nothing:
  "Manager_FillForm c b [] False =
     Some ((\<lparr>form_Success = True, form_Message = ''Form filled successfully'',
             form_Screenshot = []\<rparr>, None), b)"
  by (simp add: Manager_FillForm_def fill_form_actions_def)

lemma Manager_FillForm_only_submit:
  "perform c b (AClick ''input[type='submit']'') = (Done v, b1) \<Longrightarrow>
   Manager_FillForm c b [] True =
     Some ((\<lparr>form_Success = True, form_Message = ''Form filled successfully and submitted'',
             form_Screenshot = []\<rparr>, None), b1)"
  by (simp add: Manager_FillForm_def fill_form_actions_def Manager_submitSelectors_def)

lemma EnhancedManager_FillForm_nothing:
  "EnhancedManager_FillForm bh h [] False =
     ((\<lparr>form_Success = True, form_Message = ''Enhanced form filled successfully'',
        form_Screenshot = []\<rparr>, None), h)"
  by (simp add: EnhancedManager_FillForm_def)

lemma handleChromeFillForm_only_non_strings:
  assumes "fm \<noteq> []" and "\<forall>kv\<in>set fm. \<forall>s. snd kv \<noteq> AnyString s"
  shows "handleChromeFillForm c b fm False =
           Some ((ToolResultText \<lparr>form_Success = True,
                    form_Message = ''Form filled successfully'',
                    form_Screenshot = []\<rparr>, None), b)"
    and "perform c b (AClick ''input[type='submit']'') = (Done v, b1) \<Longrightarrow>
         handleChromeFillForm c b fm True =
           Some ((ToolResultText \<lparr>form_Success = True,
                    form_Message = ''Form filled successfully and submitted'',
                    form_Screenshot = []\<rparr>, None), b1)"
  using assms
  by (simp_all add: handleChromeFillForm_passes string_fields_none Manager_FillForm_nothing
      Manager_FillForm_only_submit)

lemma handleEnhancedFillForm_only_non_strings:
  assumes "fm \<noteq> []" and "\<forall>kv\<in>set fm. \<forall>s. snd kv \<noteq> AnyString s"
  shows "handleEnhancedFillForm c bh s (b, h) fm False validate =
           ((ToolResultText \<lparr>form_Success = True,
               form_Message = ''Enhanced form filled successfully'',
               form_Screenshot = []\<rparr>, None), (b, h))"
    and "\<exists>r h'. handleEnhancedFillForm c bh s (b, h) fm True validate
                   = ((ToolResultText r, None), (b, h')) \<and> form_Success r"
proof -
  from assms have e: "string_fields fm = []" by (simp add: string_fields_none)
  from assms(1) e show "handleEnhancedFillForm c bh s (b, h) fm False validate =
           ((ToolResultText \<lparr>form_Success = True,
               form_Message = ''Enhanced form filled successfully'',
               form_Screenshot = []\<rparr>, None), (b, h))"
    by (simp add: handleEnhancedFillForm_passes EnhancedManager_FillForm_nothing)
  have "form_Success (fst (fst (EnhancedManager_FillForm bh h [] True)))"
    by (simp add: EnhancedManager_FillForm_success)
  with assms(1) e show "\<exists>r h'. handleEnhancedFillForm c bh s (b, h) fm True validate
                   = ((ToolResultText r, None), (b, h')) \<and> form_Success r"
    by (simp add: handleEnhancedFillForm_passes)
qed

text \<open>
  Claim C10 fails in the legacy handler for a request with \<open>submit = true\<close> on a page
  without a submit control. The only entry of the fields map is not a string and is
  dropped, the request passes the required-parameter check, and \<open>Manager.FillForm\<close>, given
  no field, still runs the click on the first submit selector in its run: the request
  reports \<open>success = false\<close> when the click fails and gets no answer when the click waits.
  This is the defect of \<open>Manager.FillForm\<close> shown for claim C5, reached with no field.
\<close>

theorem legacy_fill_form_non_strings_fails:
  "string_fields [(''#age'', AnyOther (42::nat))] = []
   \<and> handleChromeFillForm (scripted_chrome no_submit_control) []
        [(''#age'', AnyOther (42::nat))] True
     = Some ((ToolResultText \<lparr>form_Success = False,
                form_Message = ''Form filling failed: element not found'',
                form_Screenshot = []\<rparr>, None),
             [AClick ''input[type='submit']''])
   \<and> handleChromeFillForm (scripted_chrome waits_for_click) []
        [(''#age'', AnyOther (42::nat))] True
     = None"
  by (simp add: handleChromeFillForm_def Manager_FillForm_def fill_form_actions_def
      Manager_submitSelectors_def scripted_chrome_def)

section \<open>Properties: capturing and applying a session\<close>

lemma to_http_cookie_flags:
  "h_Domain (to_http_cookie cookie) = [] \<and> \<not> h_Secure (to_http_cookie cookie)
   \<and> \<not> h_HttpOnly (to_http_cookie cookie)"
  by (simp add: to_http_cookie_def)

lemma EnhancedManager_GetSessionData_cookies:
  "bh h BGetCookies = (Inr (BCookies cs), h1) \<Longrightarrow>
   Cookies (fst (EnhancedManager_GetSessionData bh now h sd)) =
     map (\<lambda>cookie. \<lparr>c_Name = h_Name cookie, c_Value = h_Value cookie, c_Domain = [],
                      c_Path = h_Path cookie, c_Secure = False, c_HTTPOnly = False\<rparr>) cs"
  by (simp add: EnhancedManager_GetSessionData_def Let_def to_network_cookie_def
      split: prod.splits sum.splits)

lemma legacy_capture_apply_sample:
  "Manager_GetSessionData cookie_jar_chrome 1 logged_in_chrome new_SessionData
     = Some (\<lparr>Cookies = [\<lparr>c_Name = ''sid'', c_Value = ''abc'', c_Domain = ''example.com'',
                           c_Path = ''/'', c_Secure = True, c_HTTPOnly = True\<rparr>],
             URL = ''https://example.com/'', UserAgent = [], Timestamp = 1\<rparr>, logged_in_chrome)
   \<and> map_option snd
        (Manager_RestoreSession cookie_jar_chrome logged_in_chrome
          \<lparr>Cookies = [\<lparr>c_Name = ''sid'', c_Value = ''abc'', c_Domain = ''example.com'',
                       c_Path = ''/'', c_Secure = True, c_HTTPOnly = True\<rparr>],
           URL = ''https://example.com/'', UserAgent = [], Timestamp = 1\<rparr>)
     = Some logged_in_chrome"
  by (simp add: Manager_GetSessionData_def Manager_RestoreSession_def restore_actions_def
      set_cookie_action_def cookie_jar_chrome_def logged_in_chrome_def new_SessionData_def)

text \<open>
  Claim C8 fails for the enhanced manager. Both of its conversions copy only name, value
  and path of a cookie. On a client that stores the cookies it is given and holds one
  secure, http-only cookie of \<open>example.com\<close>, capturing and applying at once leaves that
  cookie without its domain and with both flags off. The chromedp manager, which sets all
  six fields, leaves the same session as it was (\<open>legacy_capture_apply_sample\<close>).
\<close>

theorem enhanced_capture_apply_drops_flags:
  "fst (EnhancedManager_GetSessionData cookie_jar_client 1 logged_in_client new_SessionData)
     = \<lparr>Cookies = [\<lparr>c_Name = ''sid'', c_Value = ''abc'', c_Domain = [], c_Path = ''/'',
                      c_Secure = False, c_HTTPOnly = False\<rparr>],
        URL = ''https://example.com/'', UserAgent = [], Timestamp = 1\<rparr>
   \<and> snd (EnhancedManager_GetSessionData cookie_jar_client 1 logged_in_client new_SessionData)
       = logged_in_client
   \<and> snd (EnhancedManager_RestoreSession cookie_jar_client logged_in_client
            (fst (EnhancedManager_GetSessionData cookie_jar_client 1 logged_in_client
                    new_SessionData)))
       = (''https://example.com/'',
          [\<lparr>h_Name = ''sid'', h_Value = ''abc'', h_Path = ''/'', h_Domain = [],
            h_Secure = False, h_HttpOnly = False\<rparr>])"
proof -
  have a: "EnhancedManager_GetSessionData cookie_jar_client 1 logged_in_client new_SessionData
     = (\<lparr>Cookies = [\<lparr>c_Name = ''sid'', c_Value = ''abc'', c_Domain = [], c_Path = ''/'',
                      c_Secure = False, c_HTTPOnly = False\<rparr>],
        URL = ''https://example.com/'', UserAgent = [], Timestamp = 1\<rparr>, logged_in_client)"
    by (simp add: EnhancedManager_GetSessionData_def cookie_jar_client_def logged_in_client_def
        new_SessionData_def to_network_cookie_def)
  show ?thesis
    unfolding a
    by (simp add: EnhancedManager_RestoreSession_def cookie_jar_client_def logged_in_client_def
        to_http_cookie_def)
qed

section \<open>Properties: the backend of the enhanced server\<close>

text \<open>
  \<open>Start\<close> never serves on the legacy manager alone: when it returns a server, the enhanced
  manager is the one that was initialised.
\<close>

lemma Start_no_legacy:
  "EnhancedMCPChromeServer_Start w = Inr s \<Longrightarrow>
   s = \<lparr>browser_initialized = True, legacyBrowser = None\<rparr>"
  by (auto simp: EnhancedMCPChromeServer_Start_def Manager_Init_fails split: option.splits)

text \<open>
  A handler uses the enhanced manager whatever \<open>Start\<close> initialised, and leaves the Chrome
  of the legacy manager as it was.
\<close>

lemma handleEnhancedNavigate_backend:
  "handleEnhancedNavigate c bh s (b, h) url waitFor screenshot trackPerformance
     = handleEnhancedNavigate c' bh s' (b, h) url waitFor screenshot trackPerformance"
  by (simp add: handleEnhancedNavigate_def)

lemma handleEnhancedNavigate_chrome:
  "fst (snd (handleEnhancedNavigate c bh s (b, h) url waitFor screenshot trackPerformance)) = b"
  by (simp add: handleEnhancedNavigate_def split: prod.splits option.splits sum.splits)

lemma handleEnhancedFillForm_backend:
  "handleEnhancedFillForm c bh s (b, h) fm submit validate
     = handleEnhancedFillForm c' bh s' (b, h) fm submit validate"
  by (simp add: handleEnhancedFillForm_def)

text \<open>
  Claim C9 fails where the enhanced manager cannot be initialised. On a machine where
  Chrome is live and verified on port 9222 and the \<open>browserhttp\<close> client does not
  initialise, \<open>Start\<close> falls back to \<open>Manager.Init\<close>, which tests the connection on a
  context the code has cancelled, and \<open>Start\<close> returns an error: the server does not
  degrade to the legacy backend, it does not serve. Nor would a handler reach the legacy
  manager: no handler reads which backend came up (\<open>handleEnhancedNavigate_backend\<close>).
  What holds of the claim is that a handler uses one backend only.
\<close>

theorem enhanced_server_fallback_fails:
  "EnhancedManager_Init enhanced_down_world
     = Some ''failed to initialize enhanced browser client: browser not initialized''
   \<and> live_and_verified enhanced_down_world ''9222''
   \<and> EnhancedMCPChromeServer_Start enhanced_down_world
     = Inl (''failed to initialize browser (both enhanced and legacy): ''
            @ connect_error ''context canceled'')"
proof (intro conjI)
  show e: "EnhancedManager_Init enhanced_down_world
     = Some ''failed to initialize enhanced browser client: browser not initialized''"
    by (simp add: EnhancedManager_Init_def enhanced_down_world_def)
  show "live_and_verified enhanced_down_world ''9222''"
    by (simp add: live_and_verified_def enhanced_down_world_def)
  have "storage_init enhanced_down_world = None"
    by (simp add: enhanced_down_world_def)
  then show "EnhancedMCPChromeServer_Start enhanced_down_world
     = Inl (''failed to initialize browser (both enhanced and legacy): ''
            @ connect_error ''context canceled'')"
    by (simp add: EnhancedMCPChromeServer_Start_def e Manager_Init_fails)
qed

section \<open>Properties: extracting text\<close>

text \<open>
  \<open>Manager.ExtractText\<close> forwards what the browser returns for the script: the selector
  is spliced into the script between quotes, as it is, and the strings the evaluation
  yields are the \<open>text\<close> of the result.
\<close>

lemma Manager_ExtractText_forwards:
  "perform c b (AEvaluate (extract_script selector)) = (Done (VStrings texts), b') \<Longrightarrow>
   Manager_ExtractText c b selector =
     Some ((\<lparr>text_Text = texts, text_Success = True, text_Message = []\<rparr>, None), b')"
  by (simp add: Manager_ExtractText_def)

lemma EnhancedManager_ExtractText_forwards:
  "bh h (BExtractText selector) = (Inr (BStrings texts), h') \<Longrightarrow>
   EnhancedManager_ExtractText bh h selector =
     ((\<lparr>text_Text = texts, text_Success = True,
        text_Message = ''Extracted '' @ show_nat (length texts) @ '' text elements''\<rparr>,
       None), h')"
  by (simp add: EnhancedManager_ExtractText_def)


end
